theory Spec2Isabelle
  imports Complex_Main
begin

section \<open>Buffer elements: double-precision values\<close>

text \<open>
  The buffers of \<^verbatim>\<open>RN\<close> vectors are numpy arrays of dtype float64, and the scalars of
  \<^verbatim>\<open>linCombImpl\<close> are Python numbers. An element is a finite real or one of the three
  kinds of non-finite value of the IEEE format. Arithmetic on finite values is the exact
  arithmetic of the reals (rounding and overflow are left out); arithmetic that involves a
  non-finite value follows IEEE 754: \<open>0 * inf\<close> and \<open>inf - inf\<close> are NaN, and NaN
  propagates. The two signed zeros are one value \<open>Fin 0\<close>, as they are for Python's
  \<^verbatim>\<open>==\<close>.

  Rounded float64 arithmetic is neither associative nor distributive, and a finite sum
  such as \<open>a + b\<close> can overflow to infinity. No statement below relies on the exactness
  of the finite case: the proofs about \<^verbatim>\<open>linCombImpl\<close> and \<^verbatim>\<open>multiplyImpl\<close> use only
  the laws \<open>u + v = v + u\<close>, \<open>v + 0 = v\<close>, \<open>1 * v = v\<close> and \<open>0 * v = 0\<close> for finite \<open>v\<close>,
  which rounded arithmetic has as well. Where the code forms \<open>a + b\<close> before it
  multiplies, the statements keep \<open>fadd a b\<close> as the code forms it.
\<close>

datatype f64 = Fin real | PInf | NInf | NaN

fun is_finite :: "f64 \<Rightarrow> bool" where
  "is_finite (Fin r) = True"
| "is_finite PInf = False"
| "is_finite NInf = False"
| "is_finite NaN = False"

fun fadd :: "f64 \<Rightarrow> f64 \<Rightarrow> f64" where
  "fadd (Fin u) (Fin v) = Fin (u + v)"
| "fadd NaN v = NaN"
| "fadd u NaN = NaN"
| "fadd PInf NInf = NaN"
| "fadd NInf PInf = NaN"
| "fadd PInf v = PInf"
| "fadd u PInf = PInf"
| "fadd NInf v = NInf"
| "fadd u NInf = NInf"

fun fmul :: "f64 \<Rightarrow> f64 \<Rightarrow> f64" where
  "fmul (Fin u) (Fin v) = Fin (u * v)"
| "fmul NaN v = NaN"
| "fmul u NaN = NaN"
| "fmul PInf (Fin v) = (if v = 0 then NaN else if 0 < v then PInf else NInf)"
| "fmul NInf (Fin v) = (if v = 0 then NaN else if 0 < v then NInf else PInf)"
| "fmul (Fin u) PInf = (if u = 0 then NaN else if 0 < u then PInf else NInf)"
| "fmul (Fin u) NInf = (if u = 0 then NaN else if 0 < u then NInf else PInf)"
| "fmul PInf PInf = PInf"
| "fmul PInf NInf = NInf"
| "fmul NInf PInf = NInf"
| "fmul NInf NInf = PInf"

section \<open>Objects and the store\<close>

text \<open>
  Python passes \<^verbatim>\<open>RN.Vector\<close> objects by reference, and \<^verbatim>\<open>x is y\<close> compares these
  references. A vector object holds a reference to its space and, in the field
  \<^verbatim>\<open>values\<close> (here \<open>vec_values\<close>), a reference to a numpy array;
  \<^verbatim>\<open>RN.makeVector\<close> wraps the array it is given without copying it, so two vector
  objects can hold the same array. The store therefore has two levels: vector objects by
  reference, and array contents by reference.
\<close>

type_synonym ref = nat

record RN =
  RN_n :: nat

record RNVector =
  space :: RN
  vec_values :: ref

record heap =
  vectors :: "ref \<Rightarrow> RNVector"
  arrays :: "ref \<Rightarrow> f64 list"

text \<open>
  The errors: \<^verbatim>\<open>TypeError\<close> of \<^verbatim>\<open>RN.__init__\<close>, numpy's \<^verbatim>\<open>ValueError\<close>, the error of
  the BLAS wrappers, and the spec's DimensionMismatch, which no code of the module raises.
\<close>

datatype error = TypeError | ValueError | BlasError | DimensionMismatch

definition values_of :: "heap \<Rightarrow> ref \<Rightarrow> ref" where
  "values_of h v = vec_values (vectors h v)"

definition buffer :: "heap \<Rightarrow> ref \<Rightarrow> f64 list" where
  "buffer h v = arrays h (values_of h v)"

definition bind_res :: "error + heap \<Rightarrow> (heap \<Rightarrow> error + heap) \<Rightarrow> error + heap" where
  "bind_res r f = (case r of Inl e \<Rightarrow> Inl e | Inr h \<Rightarrow> f h)"

definition result_buffer :: "ref \<Rightarrow> error + heap \<Rightarrow> error + f64 list" where
  "result_buffer r res = (case res of Inl e \<Rightarrow> Inl e | Inr h \<Rightarrow> Inr (arrays h r))"

section \<open>The vectorized primitives\<close>

text \<open>
  Modelled from the spec: the three BLAS routines that \<^verbatim>\<open>RN.__init__\<close> obtains from
  \<^verbatim>\<open>scipy.lib.blas.get_blas_funcs\<close> (scipy is not part of the repository). The spec
  gives them as \<^verbatim>\<open>scale(buf, a)\<close>, in place \<^verbatim>\<open>buf *= a\<close>; \<^verbatim>\<open>axpy(src, dst, a)\<close>, in
  place \<^verbatim>\<open>dst += a*src\<close>; and \<^verbatim>\<open>copy(src, dst)\<close>, in place \<^verbatim>\<open>dst[:] = src\<close>. The
  arguments are array references, in the order of the calls in the source
  (\<^verbatim>\<open>scal(a, x)\<close>, \<^verbatim>\<open>axpy(x, y, n, a)\<close>, \<^verbatim>\<open>copy(x, y)\<close>). Each routine works index by
  index on the first \<open>n\<close> elements, where \<open>n\<close> is the length of \<open>x\<close> unless it is passed,
  and the wrapper refuses an array shorter than \<open>n\<close>.
\<close>

definition scal :: "f64 \<Rightarrow> ref \<Rightarrow> heap \<Rightarrow> error + heap" where
  "scal a xr h = Inr (h\<lparr>arrays := (arrays h)(xr := map (fmul a) (arrays h xr))\<rparr>)"

definition axpy :: "ref \<Rightarrow> ref \<Rightarrow> nat \<Rightarrow> f64 \<Rightarrow> heap \<Rightarrow> error + heap" where
  "axpy xr yr k a h =
     (let xs = arrays h xr; ys = arrays h yr in
      if k \<le> length xs \<and> k \<le> length ys
      then Inr (h\<lparr>arrays := (arrays h)
             (yr := map2 (\<lambda>xi yi. fadd yi (fmul a xi)) (take k xs) (take k ys) @ drop k ys)\<rparr>)
      else Inl BlasError)"

definition copy :: "ref \<Rightarrow> ref \<Rightarrow> heap \<Rightarrow> error + heap" where
  "copy xr yr h =
     (let xs = arrays h xr; ys = arrays h yr in
      if length xs \<le> length ys
      then Inr (h\<lparr>arrays := (arrays h)(yr := xs @ drop (length xs) ys)\<rparr>)
      else Inl BlasError)"

text \<open>The slice assignment \<^verbatim>\<open>z.values[:] = 0\<close>.\<close>

definition fill_zero :: "ref \<Rightarrow> heap \<Rightarrow> heap" where
  "fill_zero zr h = h\<lparr>arrays := (arrays h)(zr := replicate (length (arrays h zr)) (Fin 0))\<rparr>"

section \<open>\<^verbatim>\<open>RN.__init__\<close>\<close>

text \<open>
  The argument of the constructor is any Python object. \<^verbatim>\<open>isinstance(n, Integral)\<close>
  holds of integers only (Python's \<^verbatim>\<open>bool\<close> is a subclass of \<^verbatim>\<open>int\<close>; its two values
  are the integers 0 and 1). The space keeps \<open>n\<close> in \<^verbatim>\<open>_n\<close>; the field tag and the BLAS
  handles carry no data.
\<close>

datatype pyobj = PyInt int | PyFloat f64 | PyStr string | PyNone

fun isinstance_Integral :: "pyobj \<Rightarrow> bool" where
  "isinstance_Integral (PyInt k) = True"
| "isinstance_Integral (PyFloat v) = False"
| "isinstance_Integral (PyStr s) = False"
| "isinstance_Integral PyNone = False"

definition RN_init :: "pyobj \<Rightarrow> error + RN" where
  "RN_init nn =
     (if \<not> isinstance_Integral nn then Inl TypeError
      else (case nn of
              PyInt k \<Rightarrow> if k < 1 then Inl TypeError else Inr \<lparr>RN_n = nat k\<rparr>
            | _ \<Rightarrow> Inl TypeError))"

section \<open>\<^verbatim>\<open>RN.linCombImpl\<close>\<close>

text \<open>
  The \<^verbatim>\<open>elif\<close> branches of \<^verbatim>\<open>linCombImpl\<close> after its first test, in the order of the
  source: all three arguments the same object; \<open>z\<close> the same object as \<open>x\<close>; \<open>z\<close> the
  same object as \<open>y\<close>; and the branch that selects a primitive sequence by the values of
  \<open>a\<close> and \<open>b\<close>.
\<close>

definition linCombImpl_cases ::
    "RN \<Rightarrow> ref \<Rightarrow> f64 \<Rightarrow> ref \<Rightarrow> f64 \<Rightarrow> ref \<Rightarrow> heap \<Rightarrow> error + heap" where
  "linCombImpl_cases self z a x b y h =
     (let zv = values_of h z; xv = values_of h x; yv = values_of h y in
      if z = x \<and> z = y then scal (fadd a b) zv h
      else if z = x then
        bind_res (if a \<noteq> Fin 1 then scal a zv h else Inr h)
          (\<lambda>h1. if b \<noteq> Fin 0 then axpy yv zv (RN_n self) b h1 else Inr h1)
      else if z = y then
        bind_res (if b \<noteq> Fin 1 then scal b zv h else Inr h)
          (\<lambda>h1. if a \<noteq> Fin 0 then axpy xv zv (RN_n self) a h1 else Inr h1)
      else if b = Fin 0 then
        (if a = Fin 0 then Inr (fill_zero zv h)
         else bind_res (copy xv zv h)
                (\<lambda>h1. if a \<noteq> Fin 1 then scal a zv h1 else Inr h1))
      else if a = Fin 0 then
        bind_res (copy yv zv h)
          (\<lambda>h1. if b \<noteq> Fin 1 then scal b zv h1 else Inr h1)
      else if a = Fin 1 then
        bind_res (copy xv zv h) (axpy yv zv (RN_n self) b)
      else
        bind_res (copy yv zv h)
          (\<lambda>h1. bind_res (if b \<noteq> Fin 1 then scal b zv h1 else Inr h1)
                   (axpy xv zv (RN_n self) a)))"

function linCombImpl ::
    "RN \<Rightarrow> ref \<Rightarrow> f64 \<Rightarrow> ref \<Rightarrow> f64 \<Rightarrow> ref \<Rightarrow> heap \<Rightarrow> error + heap" where
  "linCombImpl self z a x b y h =
     (if x = y \<and> b \<noteq> Fin 0 then linCombImpl self z (fadd a b) x (Fin 0) x h
      else linCombImpl_cases self z a x b y h)"
  by pat_completeness auto
termination
  by (relation "measure (\<lambda>(self, z, a, x, b, y, h). if x = y \<and> b \<noteq> Fin 0 then 1 else 0)") auto

declare linCombImpl.simps [simp del]

text \<open>
  The same function with a bound on the number of nested invocations: an invocation
  consumes one unit of fuel, and \<open>None\<close> says that the bound was reached.
\<close>

fun linCombImpl_fuel ::
    "nat \<Rightarrow> RN \<Rightarrow> ref \<Rightarrow> f64 \<Rightarrow> ref \<Rightarrow> f64 \<Rightarrow> ref \<Rightarrow> heap \<Rightarrow> (error + heap) option" where
  "linCombImpl_fuel 0 self z a x b y h = None"
| "linCombImpl_fuel (Suc k) self z a x b y h =
     (if x = y \<and> b \<noteq> Fin 0 then linCombImpl_fuel k self z (fadd a b) x (Fin 0) x h
      else Some (linCombImpl_cases self z a x b y h))"





text \<open>The element-wise reference \<open>a * x\<^sub>i + b * y\<^sub>i\<close> of the spec.\<close>

definition reference_linComb :: "f64 \<Rightarrow> f64 list \<Rightarrow> f64 \<Rightarrow> f64 list \<Rightarrow> f64 list" where
  "reference_linComb a xs b ys = map2 (\<lambda>xi yi. fadd (fmul a xi) (fmul b yi)) xs ys"

section \<open>\<^verbatim>\<open>EuclideanSpace.multiplyImpl\<close>\<close>

text \<open>
  \<^verbatim>\<open>y.values[:] = x.values*y.values\<close>: numpy forms the product in a new array and then
  assigns it to the slice. With equal lengths the product is element-wise; an array of
  length one is broadcast against the other; any other pair of lengths, and a product
  that does not fit the slice, raises ValueError.
\<close>

definition multiplyImpl :: "RN \<Rightarrow> ref \<Rightarrow> ref \<Rightarrow> heap \<Rightarrow> error + heap" where
  "multiplyImpl self x y h =
     (let xs = buffer h x; ys = buffer h y in
      if length xs = length ys
      then Inr (h\<lparr>arrays := (arrays h)(values_of h y := map2 fmul xs ys)\<rparr>)
      else if length xs = 1
      then Inr (h\<lparr>arrays := (arrays h)(values_of h y := map (fmul (hd xs)) ys)\<rparr>)
      else Inl ValueError)"

text \<open>
  The spec's in-place reference: compute a fresh vector \<open>w := a*z + b*y\<close> from the
  contents before the call, then copy \<open>w\<close> into \<open>z\<close>.
\<close>

definition linComb_via_fresh :: "f64 \<Rightarrow> ref \<Rightarrow> f64 \<Rightarrow> ref \<Rightarrow> heap \<Rightarrow> heap" where
  "linComb_via_fresh a z b y h =
     (let w = reference_linComb a (buffer h z) b (buffer h y)
      in h\<lparr>arrays := (arrays h)(values_of h z := w)\<rparr>)"

text \<open>
  The same in-place reference carried out by the engine: \<^verbatim>\<open>linCombImpl(w, a, z, b, y)\<close>
  into a result vector \<open>w\<close>, then the BLAS copy of \<open>w\<close> into \<open>z\<close>.
\<close>

definition linComb_fresh_then_copy ::
    "RN \<Rightarrow> ref \<Rightarrow> f64 \<Rightarrow> ref \<Rightarrow> f64 \<Rightarrow> ref \<Rightarrow> heap \<Rightarrow> error + heap" where
  "linComb_fresh_then_copy self w a z b y h =
     bind_res (linCombImpl self w a z b y h) (copy (values_of h w) (values_of h z))"

section \<open>Example stores\<close>

text \<open>
  A store with six vector objects, each with an array of its own at address
  \<open>r + 10\<close>: object 0 has the contents that \<^verbatim>\<open>empty()\<close> may leave behind, objects 1 and 2
  are the vectors of the docstring of \<^verbatim>\<open>linCombImpl\<close>, object 3 belongs to a space of
  dimension 2, and objects 4 and 5 are the vectors of the docstring of
  \<^verbatim>\<open>multiplyImpl\<close>.
\<close>

definition example_heap :: heap where
  "example_heap =
     \<lparr>vectors = (\<lambda>r. \<lparr>space = \<lparr>RN_n = (if r = 3 then 2 else 3)\<rparr>, vec_values = r + 10\<rparr>),
      arrays = (\<lambda>r. if r = 11 then [Fin 1, Fin 2, Fin 3]
                     else if r = 12 then [Fin 4, Fin 5, Fin 6]
                     else if r = 13 then [Fin 1, Fin 2]
                     else if r = 14 then [Fin 5, Fin 3, Fin 2]
                     else if r = 15 then [Fin 1, Fin 2, Fin 3]
                     else [NaN, PInf, Fin 7])\<rparr>"


text \<open>
  A store for a space of dimension 2 in which objects 0 and 1 hold an infinite entry;
  every other object holds zeros in an array of its own.
\<close>

definition nonfinite_heap :: heap where
  "nonfinite_heap =
     \<lparr>vectors = (\<lambda>r. \<lparr>space = \<lparr>RN_n = 2\<rparr>, vec_values = r + 10\<rparr>),
      arrays = (\<lambda>r. if r = 10 then [PInf, Fin 1]
                     else if r = 11 then [Fin 1, PInf]
                     else [Fin 0, Fin 0])\<rparr>"

section \<open>Arithmetic of the elements\<close>

lemma fadd_commute: "fadd u v = fadd v u"
  by (cases u; cases v) simp_all

lemma fadd_zero_right: "fadd v (Fin 0) = v"
  by (cases v) simp_all

lemma fadd_zero_left: "fadd (Fin 0) v = v"
  by (cases v) simp_all

lemma fmul_one_left: "fmul (Fin 1) v = v"
  by (cases v) simp_all

lemma fmul_zero_finite: "is_finite u \<Longrightarrow> fmul (Fin 0) u = Fin 0"
  by (cases u) simp_all

lemma finite_buffer_nth:
  "list_all is_finite (buffer h x) \<Longrightarrow> i < length (buffer h x) \<Longrightarrow>
   is_finite (arrays h (values_of h x) ! i)"
  by (simp add: list_all_length buffer_def)

lemma reference_linCombI:
  assumes "length xs = k" "length ys = k" "length zs = k"
    and "\<And>i. i < k \<Longrightarrow> zs ! i = fadd (fmul a (xs ! i)) (fmul b (ys ! i))"
  shows "zs = reference_linComb a xs b ys"
  using assms by (intro nth_equalityI) (simp_all add: reference_linComb_def)

section \<open>The primitives on arrays of the space's length\<close>

lemma copy_full:
  "length (arrays h xr) = length (arrays h yr) \<Longrightarrow>
   copy xr yr h = Inr (h\<lparr>arrays := (arrays h)(yr := arrays h xr)\<rparr>)"
  by (simp add: copy_def)

lemma axpy_full:
  "length (arrays h xr) = k \<Longrightarrow> length (arrays h yr) = k \<Longrightarrow>
   axpy xr yr k a h =
     Inr (h\<lparr>arrays := (arrays h)
            (yr := map2 (\<lambda>xi yi. fadd yi (fmul a xi)) (arrays h xr) (arrays h yr))\<rparr>)"
  by (simp add: axpy_def)

lemmas lc_defs = linCombImpl_cases_def result_buffer_def bind_res_def copy_full scal_def
  axpy_full fill_zero_def Let_def buffer_def

section \<open>The recursion of \<^verbatim>\<open>linCombImpl\<close>\<close>

lemma linCombImpl_no_recursion:
  "x \<noteq> y \<or> b = Fin 0 \<Longrightarrow>
   linCombImpl self z a x b y h = linCombImpl_cases self z a x b y h"
  by (subst linCombImpl.simps) auto

lemma linCombImpl_same_summand:
  "b \<noteq> Fin 0 \<Longrightarrow>
   linCombImpl self z a x b x h = linCombImpl_cases self z (fadd a b) x (Fin 0) x h"
  by (simp add: linCombImpl.simps [of self z a x b x h] linCombImpl_no_recursion)

lemma linCombImpl_collapse:
  "linCombImpl self z a x b x h = linCombImpl_cases self z (fadd a b) x (Fin 0) x h"
proof (cases "b = Fin 0")
  case True
  then show ?thesis by (simp add: fadd_zero_right linCombImpl_no_recursion)
next
  case False
  then show ?thesis by (rule linCombImpl_same_summand)
qed

section \<open>The branch that the identity tests select\<close>







section \<open>Failures of \<^verbatim>\<open>linCombImpl\<close>\<close>



section \<open>The result in each aliasing configuration\<close>

lemma nonaliased_result:
  assumes bufs: "values_of h z \<noteq> values_of h x" "values_of h z \<noteq> values_of h y"
    and len: "length (buffer h z) = RN_n self" "length (buffer h x) = RN_n self"
      "length (buffer h y) = RN_n self"
    and fin: "a = Fin 0 \<longrightarrow> list_all is_finite (buffer h x)"
      "b = Fin 0 \<longrightarrow> list_all is_finite (buffer h y)"
  shows "result_buffer (values_of h z) (linCombImpl_cases self z a x b y h)
           = Inr (reference_linComb a (buffer h x) b (buffer h y))"
proof -
  from bufs have hd: "z \<noteq> x" "z \<noteq> y" by auto
  have pt: "\<And>i. a = Fin 0 \<Longrightarrow> i < RN_n self \<Longrightarrow> is_finite (arrays h (values_of h x) ! i)"
    "\<And>i. b = Fin 0 \<Longrightarrow> i < RN_n self \<Longrightarrow> is_finite (arrays h (values_of h y) ! i)"
    using fin len finite_buffer_nth by simp_all
  show ?thesis
    using bufs len hd
    apply (simp add: lc_defs)
    apply (safe intro!: reference_linCombI [where k = "RN_n self"])
    apply (simp_all add: pt fmul_zero_finite fadd_zero_left fadd_zero_right fmul_one_left
        fadd_commute)
    done
qed

lemma nonaliased_frame:
  assumes "values_of h z \<noteq> values_of h x" "values_of h z \<noteq> values_of h y"
    and "length (buffer h z) = RN_n self" "length (buffer h x) = RN_n self"
      "length (buffer h y) = RN_n self"
  shows "result_buffer (values_of h x) (linCombImpl_cases self z a x b y h) = Inr (buffer h x)"
    and "result_buffer (values_of h y) (linCombImpl_cases self z a x b y h) = Inr (buffer h y)"
proof -
  from assms have hd: "z \<noteq> x" "z \<noteq> y" by auto
  show "result_buffer (values_of h x) (linCombImpl_cases self z a x b y h) = Inr (buffer h x)"
    using assms hd by (simp add: lc_defs)
  show "result_buffer (values_of h y) (linCombImpl_cases self z a x b y h) = Inr (buffer h y)"
    using assms hd by (simp add: lc_defs)
qed



lemma first_summand_result:
  assumes bufs: "values_of h y \<noteq> values_of h z"
    and len: "length (buffer h z) = RN_n self" "length (buffer h y) = RN_n self"
    and fin: "b = Fin 0 \<longrightarrow> list_all is_finite (buffer h y)"
  shows "result_buffer (values_of h z) (linCombImpl self z a z b y h)
           = Inr (reference_linComb a (buffer h z) b (buffer h y))"
proof -
  from bufs have hd: "z \<noteq> y" by auto
  have pt: "\<And>i. b = Fin 0 \<Longrightarrow> i < RN_n self \<Longrightarrow> is_finite (arrays h (values_of h y) ! i)"
    using fin len finite_buffer_nth by simp
  have "result_buffer (values_of h z) (linCombImpl_cases self z a z b y h)
           = Inr (reference_linComb a (buffer h z) b (buffer h y))"
    using bufs len hd
    apply (simp add: lc_defs)
    apply (safe intro!: reference_linCombI [where k = "RN_n self"])
    apply (simp_all add: pt fmul_zero_finite fadd_zero_right fmul_one_left)
    done
  then show ?thesis using hd by (simp add: linCombImpl_no_recursion)
qed


lemma result_bufferD:
  "result_buffer r res = Inr zs \<Longrightarrow> \<exists>h'. res = Inr h' \<and> arrays h' r = zs"
  by (cases res) (simp_all add: result_buffer_def)

lemma length_reference_linComb:
  "length xs = k \<Longrightarrow> length ys = k \<Longrightarrow> length (reference_linComb a xs b ys) = k"
  by (simp add: reference_linComb_def)

lemma fresh_then_copy_result:
  assumes fresh: "values_of h w \<noteq> values_of h z" "values_of h w \<noteq> values_of h y"
    and bufs: "values_of h z \<noteq> values_of h y"
    and len: "length (buffer h w) = RN_n self" "length (buffer h z) = RN_n self"
      "length (buffer h y) = RN_n self"
    and fin: "list_all is_finite (buffer h z)" "list_all is_finite (buffer h y)"
  shows "result_buffer (values_of h z) (linComb_fresh_then_copy self w a z b y h)
           = Inr (reference_linComb a (buffer h z) b (buffer h y))"
proof -
  from bufs have "z \<noteq> y" by auto
  then have eq: "linCombImpl self w a z b y h = linCombImpl_cases self w a z b y h"
    by (simp add: linCombImpl_no_recursion)
  have "result_buffer (values_of h w) (linCombImpl_cases self w a z b y h)
          = Inr (reference_linComb a (buffer h z) b (buffer h y))"
    using fresh bufs len fin by (intro nonaliased_result) simp_all
  then obtain h' where h': "linCombImpl_cases self w a z b y h = Inr h'"
      "arrays h' (values_of h w) = reference_linComb a (buffer h z) b (buffer h y)"
    using result_bufferD by blast
  have "result_buffer (values_of h z) (linCombImpl_cases self w a z b y h) = Inr (buffer h z)"
    using fresh bufs len by (intro nonaliased_frame(1))
  with h' have z': "arrays h' (values_of h z) = buffer h z"
    by (simp add: result_buffer_def)
  have "length (arrays h' (values_of h w)) = length (arrays h' (values_of h z))"
    using h'(2) z' len by (simp add: length_reference_linComb)
  then show ?thesis
    using h' eq
    by (simp add: linComb_fresh_then_copy_def bind_res_def copy_full result_buffer_def)
qed

section \<open>Linear combination without aliasing\<close>

text \<open>
  C1 as stated fails on vectors with non-finite entries. For \<open>a = 0\<close> the code copies
  \<open>y\<close> and never reads \<open>x\<close>, while the reference multiplies \<open>x\<close> by zero, and zero
  times infinity is NaN. In \<open>nonfinite_heap\<close>, \<open>x = [inf, 1]\<close>, \<open>y = [1, inf]\<close>,
  \<open>a = 0\<close> and \<open>b = 1\<close> leave \<open>z = [1, inf]\<close>; the reference is \<open>[NaN, inf]\<close>.
\<close>

theorem linCombImpl_nonfinite_counterexample:
  "buffer nonfinite_heap 0 = [PInf, Fin 1]
   \<and> buffer nonfinite_heap 1 = [Fin 1, PInf]
   \<and> result_buffer (values_of nonfinite_heap 2)
        (linCombImpl \<lparr>RN_n = 2\<rparr> 2 (Fin 0) 0 (Fin 1) 1 nonfinite_heap) = Inr [Fin 1, PInf]
   \<and> reference_linComb (Fin 0) (buffer nonfinite_heap 0) (Fin 1) (buffer nonfinite_heap 1)
       = [NaN, PInf]
   \<and> result_buffer (values_of nonfinite_heap 2)
        (linCombImpl \<lparr>RN_n = 2\<rparr> 2 (Fin 0) 0 (Fin 1) 1 nonfinite_heap)
       \<noteq> Inr (reference_linComb (Fin 0) (buffer nonfinite_heap 0) (Fin 1)
                (buffer nonfinite_heap 1))"
  by (simp add: linCombImpl_no_recursion lc_defs nonfinite_heap_def values_of_def
      reference_linComb_def)

text \<open>
  C1, amended. If the arrays of \<open>z\<close>, \<open>x\<close> and \<open>y\<close> are pairwise distinct and have the
  length of the space, \<open>x\<close> holds finite reals in case \<open>a = 0\<close> and \<open>y\<close> holds finite
  reals in case \<open>b = 0\<close>, then \<^verbatim>\<open>linCombImpl(z, a, x, b, y)\<close> returns normally, the
  array of \<open>z\<close> then equals the element-wise reference \<open>a * x\<^sub>i + b * y\<^sub>i\<close>, and the arrays
  of \<open>x\<close> and \<open>y\<close> are as before. The prior contents of \<open>z\<close> are arbitrary.
\<close>

theorem linCombImpl_nonaliased:
  assumes "values_of h z \<noteq> values_of h x" "values_of h z \<noteq> values_of h y"
      "values_of h x \<noteq> values_of h y"
    and "length (buffer h z) = RN_n self" "length (buffer h x) = RN_n self"
      "length (buffer h y) = RN_n self"
    and "a = Fin 0 \<longrightarrow> list_all is_finite (buffer h x)"
      "b = Fin 0 \<longrightarrow> list_all is_finite (buffer h y)"
  shows "result_buffer (values_of h z) (linCombImpl self z a x b y h)
           = Inr (reference_linComb a (buffer h x) b (buffer h y))
       \<and> result_buffer (values_of h x) (linCombImpl self z a x b y h) = Inr (buffer h x)
       \<and> result_buffer (values_of h y) (linCombImpl self z a x b y h) = Inr (buffer h y)"
proof -
  from assms(1-3) have "x \<noteq> y" by auto
  then have "linCombImpl self z a x b y h = linCombImpl_cases self z a x b y h"
    by (simp add: linCombImpl_no_recursion)
  then show ?thesis
    using nonaliased_result [OF assms(1,2,4-8)] nonaliased_frame [OF assms(1,2,4,5,6)]
    by simp
qed

text \<open>
  The docstring's example: in dimension 3, \<open>x = [1, 2, 3]\<close>, \<open>y = [4, 5, 6]\<close>, \<open>a = 2\<close>
  and \<open>b = 3\<close> give \<open>z = [14, 19, 24]\<close>, whatever \<open>z\<close> held before, and leave \<open>x\<close> and
  \<open>y\<close> alone; with \<open>a = 0\<close> the same vectors give \<open>z = [12, 15, 18]\<close>.
\<close>

theorem linCombImpl_nonaliased_witness:
  "result_buffer 10 (linCombImpl \<lparr>RN_n = 3\<rparr> 0 (Fin 2) 1 (Fin 3) 2 example_heap)
     = Inr [Fin 14, Fin 19, Fin 24]
   \<and> result_buffer 11 (linCombImpl \<lparr>RN_n = 3\<rparr> 0 (Fin 2) 1 (Fin 3) 2 example_heap)
     = Inr [Fin 1, Fin 2, Fin 3]
   \<and> result_buffer 12 (linCombImpl \<lparr>RN_n = 3\<rparr> 0 (Fin 2) 1 (Fin 3) 2 example_heap)
     = Inr [Fin 4, Fin 5, Fin 6]
   \<and> result_buffer 10 (linCombImpl \<lparr>RN_n = 3\<rparr> 0 (Fin 0) 1 (Fin 3) 2 example_heap)
     = Inr [Fin 12, Fin 15, Fin 18]"
  using linCombImpl_nonaliased [where h = example_heap and z = 0 and x = 1 and y = 2
      and self = "\<lparr>RN_n = 3\<rparr>" and a = "Fin 2" and b = "Fin 3"]
    linCombImpl_nonaliased [where h = example_heap and z = 0 and x = 1 and y = 2
      and self = "\<lparr>RN_n = 3\<rparr>" and a = "Fin 0" and b = "Fin 3"]
  by (simp add: example_heap_def values_of_def buffer_def reference_linComb_def)

section \<open>Aliasing is identity of the vector objects\<close>




section \<open>Dimension mismatch\<close>




section \<open>The same vector as both summands\<close>

text \<open>
  C4. \<^verbatim>\<open>linCombImpl(z, a, x, b, x)\<close> and \<^verbatim>\<open>linCombImpl(z, a+b, x, 0, x)\<close> return the
  same result and leave the same store, for all scalars, all contents and every \<open>z\<close>.
\<close>

theorem linCombImpl_summands_equal:
  "linCombImpl self z a x b x h = linCombImpl self z (fadd a b) x (Fin 0) x h"
  by (simp add: linCombImpl_collapse [of self z a x b h] linCombImpl_no_recursion)

theorem linCombImpl_summands_equal_witness:
  "linCombImpl \<lparr>RN_n = 3\<rparr> 0 (Fin 2) 1 (Fin 3) 1 example_heap
     = linCombImpl \<lparr>RN_n = 3\<rparr> 0 (Fin 5) 1 (Fin 0) 1 example_heap"
  using linCombImpl_summands_equal [of "\<lparr>RN_n = 3\<rparr>" 0 "Fin 2" 1 "Fin 3" example_heap]
  by simp

section \<open>The result vector as first summand\<close>

text \<open>
  C5 as stated fails on vectors with non-finite entries. In \<open>nonfinite_heap\<close>,
  \<open>z = [inf, 1]\<close>, \<open>y = [1, inf]\<close> and \<open>a = b = 0\<close>: the call scales \<open>z\<close> by zero in
  place and leaves \<open>[NaN, 0]\<close>. The vector \<open>a*z + b*y\<close> computed element-wise from the
  contents before the call is \<open>[NaN, NaN]\<close>, and the engine computing into a separate
  vector \<open>w\<close> assigns zeros, so that the copy leaves \<open>[0, 0]\<close> in \<open>z\<close>.
\<close>

theorem linCombImpl_in_place_counterexample:
  "buffer nonfinite_heap 0 = [PInf, Fin 1]
   \<and> buffer nonfinite_heap 1 = [Fin 1, PInf]
   \<and> result_buffer (values_of nonfinite_heap 0)
        (linCombImpl \<lparr>RN_n = 2\<rparr> 0 (Fin 0) 0 (Fin 0) 1 nonfinite_heap) = Inr [NaN, Fin 0]
   \<and> buffer (linComb_via_fresh (Fin 0) 0 (Fin 0) 1 nonfinite_heap) 0 = [NaN, NaN]
   \<and> result_buffer (values_of nonfinite_heap 0)
        (linComb_fresh_then_copy \<lparr>RN_n = 2\<rparr> 2 (Fin 0) 0 (Fin 0) 1 nonfinite_heap)
       = Inr [Fin 0, Fin 0]"
  by (simp add: linCombImpl_no_recursion lc_defs nonfinite_heap_def values_of_def
      reference_linComb_def linComb_via_fresh_def linComb_fresh_then_copy_def)

text \<open>
  C5, amended. When \<open>y\<close> holds another array than \<open>z\<close>, both arrays have the length of
  the space and \<open>y\<close> holds finite reals, \<^verbatim>\<open>linCombImpl(z, a, z, b, y)\<close> returns normally
  and leaves in the array of \<open>z\<close> what \<open>linComb_via_fresh\<close> leaves there: the vector
  \<open>a*z + b*y\<close> computed from the contents before the call and copied into \<open>z\<close>. When
  \<open>z\<close> holds finite reals too, this is also what the engine leaves in \<open>z\<close> when it
  computes into any vector \<open>w\<close> with an array of its own and \<open>w\<close> is then copied into
  \<open>z\<close>.
\<close>

theorem linCombImpl_in_place:
  assumes "values_of h y \<noteq> values_of h z"
    and "length (buffer h z) = RN_n self" "length (buffer h y) = RN_n self"
    and "list_all is_finite (buffer h y)"
  shows "result_buffer (values_of h z) (linCombImpl self z a z b y h)
           = Inr (buffer (linComb_via_fresh a z b y h) z)
       \<and> (values_of h w \<noteq> values_of h z \<and> values_of h w \<noteq> values_of h y
            \<and> length (buffer h w) = RN_n self \<and> list_all is_finite (buffer h z)
          \<longrightarrow> result_buffer (values_of h z) (linCombImpl self z a z b y h)
                = result_buffer (values_of h z) (linComb_fresh_then_copy self w a z b y h))"
  using first_summand_result [OF assms(1-3)] fresh_then_copy_result [of h w z y self a b]
    assms
  by (simp add: linComb_via_fresh_def buffer_def values_of_def Let_def)

theorem linCombImpl_in_place_witness:
  "result_buffer 11 (linCombImpl \<lparr>RN_n = 3\<rparr> 1 (Fin 2) 1 (Fin 3) 2 example_heap)
     = Inr [Fin 14, Fin 19, Fin 24]
   \<and> buffer (linComb_via_fresh (Fin 2) 1 (Fin 3) 2 example_heap) 1
     = [Fin 14, Fin 19, Fin 24]
   \<and> result_buffer 11
        (linComb_fresh_then_copy \<lparr>RN_n = 3\<rparr> 0 (Fin 2) 1 (Fin 3) 2 example_heap)
     = Inr [Fin 14, Fin 19, Fin 24]"
  using linCombImpl_in_place [where h = example_heap and z = 1 and y = 2 and w = 0
      and self = "\<lparr>RN_n = 3\<rparr>" and a = "Fin 2" and b = "Fin 3"]
  by (auto simp: example_heap_def values_of_def buffer_def reference_linComb_def
      linComb_via_fresh_def)

section \<open>Both scalars zero\<close>

text \<open>
  C6 as stated fails. When \<open>z\<close> is the same object as \<open>x\<close> or \<open>y\<close>, the code scales
  \<open>z\<close> in place (\<^verbatim>\<open>scal(a+b, z)\<close>, \<^verbatim>\<open>scal(a, z)\<close> or \<^verbatim>\<open>scal(b, z)\<close>) and zero times a
  non-finite value is NaN. Object 0 of \<open>example_heap\<close> holds \<open>[NaN, inf, 7]\<close>; passed as
  all three arguments with \<open>a = b = 0\<close> it is left as \<open>[NaN, NaN, 0]\<close>.
\<close>

theorem linCombImpl_zero_scalars_counterexample:
  "buffer example_heap 0 = [NaN, PInf, Fin 7]
   \<and> result_buffer (values_of example_heap 0)
        (linCombImpl \<lparr>RN_n = 3\<rparr> 0 (Fin 0) 0 (Fin 0) 0 example_heap) = Inr [NaN, NaN, Fin 0]
   \<and> result_buffer (values_of example_heap 0)
        (linCombImpl \<lparr>RN_n = 3\<rparr> 0 (Fin 0) 0 (Fin 0) 0 example_heap)
       \<noteq> Inr [Fin 0, Fin 0, Fin 0]"
  by (simp add: linCombImpl_no_recursion lc_defs example_heap_def values_of_def)

text \<open>
  C6, amended. With \<open>a = b = 0\<close>: when \<open>z\<close> is neither the object \<open>x\<close> nor the object
  \<open>y\<close>, the array of \<open>z\<close> is left entirely zero, whatever \<open>x\<close>, \<open>y\<close> and \<open>z\<close> held
  (non-finite values included); when \<open>z\<close> is the object \<open>x\<close> or the object \<open>y\<close>, every
  element of \<open>z\<close> is multiplied by zero, which leaves \<open>z\<close> entirely zero when it held
  finite reals.
\<close>

theorem linCombImpl_zero_scalars:
  "(z \<noteq> x \<and> z \<noteq> y \<longrightarrow>
      result_buffer (values_of h z) (linCombImpl self z (Fin 0) x (Fin 0) y h)
        = Inr (replicate (length (buffer h z)) (Fin 0)))
   \<and> (z = x \<or> z = y \<longrightarrow>
      result_buffer (values_of h z) (linCombImpl self z (Fin 0) x (Fin 0) y h)
        = Inr (map (fmul (Fin 0)) (buffer h z)))
   \<and> (list_all is_finite (buffer h z) \<longrightarrow>
      result_buffer (values_of h z) (linCombImpl self z (Fin 0) x (Fin 0) y h)
        = Inr (replicate (length (buffer h z)) (Fin 0)))"
proof -
  have fin: "map (fmul (Fin 0)) zs = replicate (length zs) (Fin 0)"
    if "list_all is_finite zs" for zs
    using that by (induction zs) (simp_all add: fmul_zero_finite)
  show ?thesis
    by (auto simp: linCombImpl_no_recursion lc_defs fin)
qed

theorem linCombImpl_zero_scalars_witness:
  "result_buffer 11 (linCombImpl \<lparr>RN_n = 3\<rparr> 1 (Fin 0) 0 (Fin 0) 0 example_heap)
     = Inr [Fin 0, Fin 0, Fin 0]
   \<and> result_buffer 10 (linCombImpl \<lparr>RN_n = 3\<rparr> 0 (Fin 0) 0 (Fin 0) 1 example_heap)
     = Inr [NaN, NaN, Fin 0]
   \<and> result_buffer 11 (linCombImpl \<lparr>RN_n = 3\<rparr> 1 (Fin 0) 1 (Fin 0) 1 example_heap)
     = Inr [Fin 0, Fin 0, Fin 0]"
  using linCombImpl_zero_scalars [where h = example_heap and z = 1 and x = 0 and y = 0
      and self = "\<lparr>RN_n = 3\<rparr>"]
    linCombImpl_zero_scalars [where h = example_heap and z = 0 and x = 0 and y = 1
      and self = "\<lparr>RN_n = 3\<rparr>"]
    linCombImpl_zero_scalars [where h = example_heap and z = 1 and x = 1 and y = 1
      and self = "\<lparr>RN_n = 3\<rparr>"]
  by (simp add: example_heap_def values_of_def buffer_def)

section \<open>Pointwise multiplication\<close>

text \<open>
  C8. For \<open>x\<close> and \<open>y\<close> of the same length, \<^verbatim>\<open>multiplyImpl(x, y)\<close> returns normally
  and leaves in the array of \<open>y\<close> the element-wise product \<open>x\<^sub>i * y\<^sub>i\<close>; the array of \<open>x\<close>
  is as before when it is another array than that of \<open>y\<close>; and with the same object for
  both arguments every element of \<open>y\<close> is squared.
\<close>

theorem multiplyImpl_pointwise:
  assumes "length (buffer h x) = length (buffer h y)"
  shows "result_buffer (values_of h y) (multiplyImpl self x y h)
           = Inr (map2 fmul (buffer h x) (buffer h y))
       \<and> (values_of h x \<noteq> values_of h y \<longrightarrow>
            result_buffer (values_of h x) (multiplyImpl self x y h) = Inr (buffer h x))
       \<and> (x = y \<longrightarrow>
            result_buffer (values_of h y) (multiplyImpl self x y h)
              = Inr (map (\<lambda>v. fmul v v) (buffer h y)))"
  using assms
  by (auto simp: multiplyImpl_def result_buffer_def Let_def buffer_def zip_same_conv_map
      comp_def)

text \<open>
  The docstring's example: \<open>x = [5, 3, 2]\<close> and \<open>y = [1, 2, 3]\<close> leave \<open>y = [5, 6, 6]\<close>
  and \<open>x\<close> as it was; \<open>x\<close> multiplied with itself becomes \<open>[25, 9, 4]\<close>.
\<close>

theorem multiplyImpl_pointwise_witness:
  "result_buffer 15 (multiplyImpl \<lparr>RN_n = 3\<rparr> 4 5 example_heap) = Inr [Fin 5, Fin 6, Fin 6]
   \<and> result_buffer 14 (multiplyImpl \<lparr>RN_n = 3\<rparr> 4 5 example_heap) = Inr [Fin 5, Fin 3, Fin 2]
   \<and> result_buffer 14 (multiplyImpl \<lparr>RN_n = 3\<rparr> 4 4 example_heap)
       = Inr [Fin 25, Fin 9, Fin 4]"
  using multiplyImpl_pointwise [where h = example_heap and x = 4 and y = 5
      and self = "\<lparr>RN_n = 3\<rparr>"]
    multiplyImpl_pointwise [where h = example_heap and x = 4 and y = 4
      and self = "\<lparr>RN_n = 3\<rparr>"]
  by (simp add: example_heap_def values_of_def buffer_def)

section \<open>Construction of a space\<close>

text \<open>
  C9. \<^verbatim>\<open>RN(n)\<close> raises TypeError (the spec's InvalidArgument) for every argument that
  is not an integer of value at least 1, and no space results; for an integer \<open>k \<ge> 1\<close>
  it returns the space whose dimension is \<open>k\<close>.
\<close>

theorem RN_init_positive_integer:
  "(\<not> (\<exists>j. nn = PyInt j \<and> 1 \<le> j) \<longrightarrow> RN_init nn = Inl TypeError)
   \<and> (1 \<le> k \<longrightarrow> RN_init (PyInt k) = Inr \<lparr>RN_n = nat k\<rparr> \<and> int (nat k) = k)"
  by (cases nn) (auto simp: RN_init_def)

theorem RN_init_positive_integer_witness:
  "RN_init (PyInt 0) = Inl TypeError
   \<and> RN_init (PyInt (- 4)) = Inl TypeError
   \<and> RN_init (PyFloat (Fin 3)) = Inl TypeError
   \<and> RN_init PyNone = Inl TypeError
   \<and> RN_init (PyInt 3) = Inr \<lparr>RN_n = 3\<rparr>"
  using RN_init_positive_integer [of "PyInt 0" 3]
    RN_init_positive_integer [of "PyInt (- 4)" 3]
    RN_init_positive_integer [of "PyFloat (Fin 3)" 3]
    RN_init_positive_integer [of PyNone 3]
  by simp

section \<open>Termination of \<^verbatim>\<open>linCombImpl\<close>\<close>

text \<open>
  C10. \<^verbatim>\<open>linCombImpl\<close> returns on every input, and two nested invocations always
  suffice: the recursive call passes \<open>b = 0\<close>, so the invocation it starts does not
  recurse. With fuel for two invocations (or more) the bounded function returns, and it
  returns the result of \<open>linCombImpl\<close>, whose definition rests on the termination proof
  with the measure "1 if the recursive branch is taken, else 0".
\<close>

theorem linCombImpl_terminates:
  "linCombImpl_fuel (Suc (Suc k)) self z a x b y h = Some (linCombImpl self z a x b y h)"
proof (cases "x = y \<and> b \<noteq> Fin 0")
  case True
  then show ?thesis by (simp add: linCombImpl_same_summand)
next
  case False
  then have "linCombImpl self z a x b y h = linCombImpl_cases self z a x b y h"
    by (intro linCombImpl_no_recursion) blast
  with False show ?thesis by auto
qed

theorem linCombImpl_terminates_witness:
  "linCombImpl_fuel (Suc (Suc 0)) \<lparr>RN_n = 3\<rparr> 0 (Fin 2) 1 (Fin 3) 1 example_heap
     = Some (linCombImpl \<lparr>RN_n = 3\<rparr> 0 (Fin 2) 1 (Fin 3) 1 example_heap)"
  using linCombImpl_terminates [of 0 "\<lparr>RN_n = 3\<rparr>" 0 "Fin 2" 1 "Fin 3" 1 example_heap]
  by simp

end
